theory Spec2Isabelle
  imports Main "HOL-Library.Word"
begin

unbundle bit_operations_syntax

section \<open>pqrs::osx::file_monitor: data model\<close>

text \<open>
  The class \<open>file_monitor\<close> watches a fixed list of files through the File System
  Events facility of the operating system. Everything it does beyond changing its own
  members is an interaction with three collaborators, which the model makes explicit:
  \<^item> the file system (\<open>std::ifstream\<close> in \<open>read_file\<close>, \<open>filesystem::realpath\<close>);
  \<^item> the File System Events API (\<open>FSEventStreamCreate\<close>, \<open>FSEventStreamStart\<close>, ...);
  \<^item> the dispatcher, to which the signals \<open>file_changed\<close> and \<open>error_occurred\<close> are
    enqueued (\<open>enqueue_to_dispatcher\<close>) and which fires them later in FIFO order.
\<close>

type_synonym byte = "8 word"

text \<open>\<open>std::shared_ptr<std::vector<uint8_t>>\<close>: \<open>None\<close> is \<open>nullptr\<close>.\<close>

type_synonym file_body = "byte list option"

text \<open>
  \<open>FSEventStreamRef\<close>: an opaque handle. The model names a handle by the position in the
  log of API calls at which it was created.
\<close>

type_synonym stream_ref = nat

text \<open>
  The environment at the time a task runs on the dispatcher thread.
  \<open>open_file path\<close> is \<open>None\<close> when \<open>std::ifstream ifstream(path)\<close> is not good, and the
  bytes of the file otherwise. \<open>realpath\<close> is \<open>pqrs::filesystem::realpath\<close>.
  \<open>FSEventStreamCreate k\<close> tells whether the creation call made at position \<open>k\<close> of the
  API log returns a stream, \<open>FSEventStreamStart h\<close> whether starting the stream \<open>h\<close>
  returns true.
\<close>

record world =
  open_file :: "string \<Rightarrow> byte list option"
  realpath :: "string \<Rightarrow> string option"
  FSEventStreamCreate :: "nat \<Rightarrow> bool"
  FSEventStreamStart :: "stream_ref \<Rightarrow> bool"

text \<open>The signals of the class, as the tasks enqueued to the dispatcher fire them.\<close>

datatype signal =
  File_changed string file_body
| Error_occurred string

text \<open>The calls made to the File System Events API.\<close>

datatype fsevents_call =
  Create "stream_ref option"
| SetDispatchQueue stream_ref
| Start stream_ref bool
| Stop stream_ref
| Invalidate stream_ref
| Release stream_ref

text \<open>
  The members of \<open>file_monitor\<close> (\<open>files\<close>, \<open>directories\<close>, \<open>stream\<close>,
  \<open>stream_file_paths\<close>, \<open>file_bodies\<close>; the source writes each with a trailing
  underscore, which a name cannot end with here), followed by the two effect logs: the signals
  enqueued to the dispatcher so far and the API calls made so far, both oldest first.
  \<open>directories\<close> is \<open>None\<close> when \<open>cf::make_cf_mutable_array\<close> returned no array.
\<close>

record file_monitor =
  files :: "string list"
  directories :: "string list option"
  stream :: "stream_ref option"
  stream_file_paths :: "string \<rightharpoonup> string"
  file_bodies :: "string \<rightharpoonup> file_body"
  dispatcher_queue :: "signal list"
  fsevents_log :: "fsevents_call list"

text \<open>\<open>struct fs_event\<close>; \<open>FSEventStreamEventFlags\<close> is a 32-bit unsigned integer.\<close>

record fs_event =
  file_path :: string
  flags :: "32 word"

text \<open>
  Modelled from the spec: the flag constants are declared by the operating system header
  \<open>CoreServices/FSEvents.h\<close>, which is not part of the repository; the spec names them
  (root changed, kernel dropped, user dropped, own event) and the values are those of the
  header.
\<close>

definition kFSEventStreamEventFlagUserDropped :: "32 word" where
  "kFSEventStreamEventFlagUserDropped = 0x00000002"

definition kFSEventStreamEventFlagKernelDropped :: "32 word" where
  "kFSEventStreamEventFlagKernelDropped = 0x00000004"

definition kFSEventStreamEventFlagRootChanged :: "32 word" where
  "kFSEventStreamEventFlagRootChanged = 0x00000020"

definition kFSEventStreamEventFlagOwnEvent :: "32 word" where
  "kFSEventStreamEventFlagOwnEvent = 0x00080000"

section \<open>Operations\<close>

text \<open>
  The constructor. \<open>dirname\<close> is \<open>pqrs::filesystem::dirname\<close>, \<open>array_ok\<close> tells whether
  \<open>cf::make_cf_mutable_array\<close> returned an array and \<open>string_ok d\<close> whether
  \<open>cf::make_cf_string(d)\<close> returned a string. The directories are collected in a
  \<open>std::unordered_set\<close>, whose iteration order is unspecified; the model keeps each
  directory once, in list order.
\<close>

definition file_monitor_new ::
  "(string \<Rightarrow> string) \<Rightarrow> bool \<Rightarrow> (string \<Rightarrow> bool) \<Rightarrow> string list \<Rightarrow> file_monitor" where
  "file_monitor_new dirname array_ok string_ok paths =
     \<lparr> files = paths,
       directories =
         (if array_ok then Some (filter string_ok (remdups (map dirname paths))) else None),
       stream = None,
       stream_file_paths = Map.empty,
       file_bodies = Map.empty,
       dispatcher_queue = [],
       fsevents_log = [] \<rparr>"

text \<open>\<open>enqueue_to_dispatcher\<close> of a task that fires one signal.\<close>

definition enqueue_to_dispatcher :: "signal \<Rightarrow> file_monitor \<Rightarrow> file_monitor" where
  "enqueue_to_dispatcher sig s = s\<lparr>dispatcher_queue := dispatcher_queue s @ [sig]\<rparr>"

definition fsevents_call :: "fsevents_call \<Rightarrow> file_monitor \<Rightarrow> file_monitor" where
  "fsevents_call c s = s\<lparr>fsevents_log := fsevents_log s @ [c]\<rparr>"

text \<open>
  \<open>read_file\<close>: when the stream is good, the size is taken from the end position, a
  zero-filled buffer of that size is allocated and \<open>size\<close> bytes are read into it.
  For a file of size zero the address \<open>&((*buffer)[0])\<close> is taken of an empty vector and
  zero bytes are read through it; the model takes this read as doing nothing.
\<close>

definition read_file :: "world \<Rightarrow> string \<Rightarrow> file_body" where
  "read_file w path =
     (case open_file w path of
        Some content \<Rightarrow>
          (let size = length content;
               buffer = replicate size (0 :: byte);
               got = take size content
           in Some (got @ drop (length got) buffer))
      | None \<Rightarrow> None)"

text \<open>
  \<open>update_file_bodies\<close>: the result pair \<open>(updated, file_body)\<close> and the monitor with its
  cache after the call.
\<close>

definition update_file_bodies ::
  "world \<Rightarrow> string \<Rightarrow> file_monitor \<Rightarrow> (bool \<times> file_body) \<times> file_monitor" where
  "update_file_bodies w path s =
     (if path \<in> set (files s) then
        (let file_body = read_file w path;
             store = ((True, file_body), s\<lparr>file_bodies := (file_bodies s)(path \<mapsto> file_body)\<rparr>)
         in case file_bodies s path of
              Some cached \<Rightarrow>
                (case (cached, file_body) of
                   (Some old, Some new) \<Rightarrow> if old = new then ((False, None), s) else store
                 | (None, None) \<Rightarrow> ((False, None), s)
                 | _ \<Rightarrow> store)
            | None \<Rightarrow> store)
      else ((False, None), s))"

text \<open>The loop over \<open>files\<close> at the head of \<open>register_stream\<close> ("signal manually once").\<close>

fun signal_manually :: "world \<Rightarrow> string list \<Rightarrow> file_monitor \<Rightarrow> file_monitor" where
  "signal_manually w [] s = s"
| "signal_manually w (path # rest) s =
     (case update_file_bodies w path s of
        ((updated, file_body), s') \<Rightarrow>
          signal_manually w rest
            (if updated then enqueue_to_dispatcher (File_changed path file_body) s' else s'))"

definition register_stream :: "world \<Rightarrow> file_monitor \<Rightarrow> file_monitor" where
  "register_stream w s =
     (if stream s \<noteq> None then s
      else if directories s = None then s
      else
        (let s1 = signal_manually w (files s) s;
             h = length (fsevents_log s1)
         in if \<not> FSEventStreamCreate w h then
              enqueue_to_dispatcher (Error_occurred ''FSEventStreamCreate is failed.'')
                (fsevents_call (Create None) (s1\<lparr>stream := None\<rparr>))
            else
              (let s2 = fsevents_call (SetDispatchQueue h)
                          (fsevents_call (Create (Some h)) (s1\<lparr>stream := Some h\<rparr>))
               in if \<not> FSEventStreamStart w h then
                    enqueue_to_dispatcher (Error_occurred ''FSEventStreamStart is failed.'')
                      (fsevents_call (Start h False) s2)
                  else fsevents_call (Start h True) s2)))"

definition unregister_stream :: "file_monitor \<Rightarrow> file_monitor" where
  "unregister_stream s =
     (case stream s of
        Some h \<Rightarrow>
          (fsevents_call (Release h) (fsevents_call (Invalidate h) (fsevents_call (Stop h) s)))
            \<lparr>stream := None\<rparr>
      | None \<Rightarrow> s)"

text \<open>\<open>async_start\<close>: the enqueued task calls \<open>register_stream\<close>.\<close>

definition async_start :: "world \<Rightarrow> file_monitor \<Rightarrow> file_monitor" where
  "async_start w s = register_stream w s"

text \<open>\<open>enqueue_file_changed\<close>: both enqueued tasks, run in order.\<close>

definition enqueue_file_changed :: "string \<Rightarrow> file_monitor \<Rightarrow> file_monitor" where
  "enqueue_file_changed path s =
     (case file_bodies s path of
        Some changed_file_body \<Rightarrow> enqueue_to_dispatcher (File_changed path changed_file_body) s
      | None \<Rightarrow> s)"

text \<open>The two flag tests of \<open>stream_callback\<close>.\<close>

definition needs_reregister :: "fs_event \<Rightarrow> bool" where
  "needs_reregister e \<longleftrightarrow>
     flags e AND (kFSEventStreamEventFlagRootChanged OR
                  kFSEventStreamEventFlagKernelDropped OR
                  kFSEventStreamEventFlagUserDropped) \<noteq> 0"

definition own_event :: "fs_event \<Rightarrow> bool" where
  "own_event e \<longleftrightarrow> flags e AND kFSEventStreamEventFlagOwnEvent \<noteq> 0"

text \<open>
  The part of \<open>stream_callback\<close> that computes \<open>changed_file_path\<close> for one event
  and maintains \<open>stream_file_paths\<close>. \<open>std::find_if\<close> returns the first match;
  \<open>*realpath == filesystem::realpath(p)\<close> compares a string with an optional string.
\<close>

definition changed_file_path :: "world \<Rightarrow> fs_event \<Rightarrow> file_monitor \<Rightarrow> string option \<times> file_monitor" where
  "changed_file_path w e s =
     (case realpath w (file_path e) of
        Some rp \<Rightarrow>
          (case find (\<lambda>p. Some rp = realpath w p) (files s) of
             Some p \<Rightarrow>
               (Some p, s\<lparr>stream_file_paths := (stream_file_paths s)(file_path e \<mapsto> p)\<rparr>)
           | None \<Rightarrow> (None, s))
      | None \<Rightarrow>
          (case stream_file_paths s (file_path e) of
             Some p \<Rightarrow>
               (Some p, s\<lparr>stream_file_paths := (stream_file_paths s)(file_path e := None)\<rparr>)
           | None \<Rightarrow> (None, s)))"

text \<open>The body of the loop of \<open>stream_callback\<close>, for one event.\<close>

definition handle_event :: "world \<Rightarrow> fs_event \<Rightarrow> file_monitor \<Rightarrow> file_monitor" where
  "handle_event w e s =
     (if needs_reregister e then register_stream w (unregister_stream s)
      else
        (case changed_file_path w e s of
           (None, s1) \<Rightarrow> s1
         | (Some path, s1) \<Rightarrow>
             (case update_file_bodies w path s1 of
                ((updated, file_body), s2) \<Rightarrow>
                  if updated then
                    (if \<not> own_event e then enqueue_to_dispatcher (File_changed path file_body) s2
                     else s2)
                  else s2)))"

fun stream_callback :: "world \<Rightarrow> fs_event list \<Rightarrow> file_monitor \<Rightarrow> file_monitor" where
  "stream_callback w [] s = s"
| "stream_callback w (e # es) s = stream_callback w es (handle_event w e s)"

text \<open>
  \<open>static_stream_callback\<close> builds the event list from the arrays of the API, leaving out
  the entries whose path is a null pointer, and hands it to \<open>stream_callback\<close>. Its
  check that the monitor is still alive belongs to the destruction of the object, which
  the model does not cover.
\<close>

definition static_stream_callback ::
  "world \<Rightarrow> (string option \<times> 32 word) list \<Rightarrow> file_monitor \<Rightarrow> file_monitor" where
  "static_stream_callback w raw s =
     stream_callback w
       (concat (map (\<lambda>(p, f). case p of Some path \<Rightarrow> [\<lparr>file_path = path, flags = f\<rparr>] | None \<Rightarrow> [])
                    raw)) s"

section \<open>Observations and scenarios\<close>

text \<open>
  Predicates on the two effect logs, the states a monitor can be in, and two builders for
  concrete scenarios: a world given by association lists, and a monitor constructed for
  files of the current directory.
\<close>

fun is_error_occurred :: "signal \<Rightarrow> bool" where
  "is_error_occurred (Error_occurred m) = True"
| "is_error_occurred (File_changed p b) = False"

fun failed_call :: "fsevents_call \<Rightarrow> bool" where
  "failed_call (Create None) = True"
| "failed_call (Start h False) = True"
| "failed_call c = False"

definition cache_keys_watched :: "file_monitor \<Rightarrow> bool" where
  "cache_keys_watched s \<longleftrightarrow> dom (file_bodies s) \<subseteq> set (files s)"

inductive reachable :: "file_monitor \<Rightarrow> bool" where
  constructed: "reachable (file_monitor_new dirname array_ok string_ok paths)"
| started: "reachable s \<Longrightarrow> reachable (async_start w s)"
| delivered: "reachable s \<Longrightarrow> reachable (stream_callback w es s)"
| requested: "reachable s \<Longrightarrow> reachable (enqueue_file_changed path s)"
| destroyed: "reachable s \<Longrightarrow> reachable (unregister_stream s)"

definition example_world ::
  "(string \<times> byte list) list \<Rightarrow> (string \<times> string) list \<Rightarrow> bool \<Rightarrow> bool \<Rightarrow> world" where
  "example_world contents links create_ok start_ok =
     \<lparr> open_file = map_of contents,
       realpath = map_of links,
       FSEventStreamCreate = (\<lambda>k. create_ok),
       FSEventStreamStart = (\<lambda>h. start_ok) \<rparr>"

definition example_monitor :: "string list \<Rightarrow> file_monitor" where
  "example_monitor paths = file_monitor_new (\<lambda>p. ''.'') True (\<lambda>d. True) paths"

section \<open>Basic facts about the operations\<close>

lemmas example_defs = example_world_def example_monitor_def file_monitor_new_def
lemmas flag_defs = needs_reregister_def own_event_def
  kFSEventStreamEventFlagRootChanged_def kFSEventStreamEventFlagKernelDropped_def
  kFSEventStreamEventFlagUserDropped_def kFSEventStreamEventFlagOwnEvent_def
lemmas step_defs = async_start_def register_stream_def unregister_stream_def handle_event_def
  changed_file_path_def update_file_bodies_def read_file_def enqueue_to_dispatcher_def
  fsevents_call_def enqueue_file_changed_def Let_def

lemma read_file_open: "read_file w p = open_file w p"
  by (simp add: read_file_def Let_def split: option.splits)

lemma update_file_bodies_eq:
  "update_file_bodies w p s =
     (if p \<in> set (files s) \<and> file_bodies s p \<noteq> Some (read_file w p)
      then ((True, read_file w p), s\<lparr>file_bodies := (file_bodies s)(p \<mapsto> read_file w p)\<rparr>)
      else ((False, None), s))"
  by (auto simp: update_file_bodies_def Let_def split: option.splits)

lemma signal_manually_step:
  "signal_manually w (p # ps) s =
     signal_manually w ps
       (if p \<in> set (files s) \<and> file_bodies s p \<noteq> Some (read_file w p)
        then s\<lparr>file_bodies := (file_bodies s)(p \<mapsto> read_file w p),
               dispatcher_queue := dispatcher_queue s @ [File_changed p (read_file w p)]\<rparr>
        else s)"
  by (simp add: update_file_bodies_eq enqueue_to_dispatcher_def)

lemma signal_manually_frame:
  "files (signal_manually w ps s) = files s"
  "directories (signal_manually w ps s) = directories s"
  "stream (signal_manually w ps s) = stream s"
  "stream_file_paths (signal_manually w ps s) = stream_file_paths s"
  "fsevents_log (signal_manually w ps s) = fsevents_log s"
  by (induction ps arbitrary: s; simp add: signal_manually_step del: signal_manually.simps(2))+

lemma remdups_snoc: "remdups (ys @ [x]) = filter (\<lambda>y. y \<noteq> x) (remdups ys) @ [x]"
  by (induction ys) auto

lemma first_occurrences_Cons:
  "rev (remdups (rev (x # ps))) = x # filter (\<lambda>p. p \<noteq> x) (rev (remdups (rev ps)))"
  by (simp add: remdups_snoc rev_filter)

lemma signal_manually_queue:
  "dispatcher_queue (signal_manually w ps s) =
     dispatcher_queue s @
     map (\<lambda>p. File_changed p (read_file w p))
       (filter (\<lambda>p. p \<in> set (files s) \<and> file_bodies s p \<noteq> Some (read_file w p))
          (rev (remdups (rev ps))))"
proof (induction ps arbitrary: s)
  case Nil
  show ?case by simp
next
  case (Cons x ps)
  show ?case
    unfolding signal_manually_step first_occurrences_Cons Cons.IH
    by (auto simp: filter_filter intro!: filter_cong arg_cong[where f = "map _"])
qed

lemma signal_manually_bodies:
  "file_bodies (signal_manually w ps s) =
     (\<lambda>p. if p \<in> set ps \<and> p \<in> set (files s) then Some (read_file w p) else file_bodies s p)"
proof (induction ps arbitrary: s)
  case Nil
  show ?case by simp
next
  case (Cons x ps)
  show ?case
    unfolding signal_manually_step Cons.IH
    by (auto simp: fun_eq_iff)
qed

lemma unregister_stream_frame:
  "files (unregister_stream s) = files s"
  "directories (unregister_stream s) = directories s"
  "stream (unregister_stream s) = None"
  "stream_file_paths (unregister_stream s) = stream_file_paths s"
  "file_bodies (unregister_stream s) = file_bodies s"
  "dispatcher_queue (unregister_stream s) = dispatcher_queue s"
  by (simp_all add: unregister_stream_def fsevents_call_def split: option.splits)

lemma changed_file_path_frame:
  "files (snd (changed_file_path w e s)) = files s"
  "directories (snd (changed_file_path w e s)) = directories s"
  "stream (snd (changed_file_path w e s)) = stream s"
  "file_bodies (snd (changed_file_path w e s)) = file_bodies s"
  "dispatcher_queue (snd (changed_file_path w e s)) = dispatcher_queue s"
  "fsevents_log (snd (changed_file_path w e s)) = fsevents_log s"
  by (simp_all add: changed_file_path_def split: option.splits)

lemma register_stream_queue:
  "dispatcher_queue (register_stream w s) =
     (if stream s = None \<and> directories s \<noteq> None then
        dispatcher_queue (signal_manually w (files s) s) @
        (if \<not> FSEventStreamCreate w (length (fsevents_log s)) then
           [Error_occurred ''FSEventStreamCreate is failed.'']
         else if \<not> FSEventStreamStart w (length (fsevents_log s)) then
           [Error_occurred ''FSEventStreamStart is failed.'']
         else [])
      else dispatcher_queue s)"
  by (simp add: register_stream_def Let_def enqueue_to_dispatcher_def fsevents_call_def
      signal_manually_frame)

lemma register_stream_log:
  "fsevents_log (register_stream w s) =
     (if stream s = None \<and> directories s \<noteq> None then
        fsevents_log s @
        (if \<not> FSEventStreamCreate w (length (fsevents_log s)) then [Create None]
         else [Create (Some (length (fsevents_log s))), SetDispatchQueue (length (fsevents_log s)),
               Start (length (fsevents_log s)) (FSEventStreamStart w (length (fsevents_log s)))])
      else fsevents_log s)"
  by (simp add: register_stream_def Let_def enqueue_to_dispatcher_def fsevents_call_def
      signal_manually_frame)

lemma register_stream_stream:
  "stream (register_stream w s) =
     (if stream s = None \<and> directories s \<noteq> None then
        (if FSEventStreamCreate w (length (fsevents_log s)) then Some (length (fsevents_log s))
         else None)
      else stream s)"
  by (auto simp add: register_stream_def Let_def enqueue_to_dispatcher_def fsevents_call_def
      signal_manually_frame)

lemma register_stream_frame:
  "files (register_stream w s) = files s"
  "directories (register_stream w s) = directories s"
  "stream_file_paths (register_stream w s) = stream_file_paths s"
  by (simp_all add: register_stream_def Let_def enqueue_to_dispatcher_def fsevents_call_def
      signal_manually_frame)

lemma register_stream_bodies:
  "file_bodies (register_stream w s) =
     (if stream s = None \<and> directories s \<noteq> None then file_bodies (signal_manually w (files s) s)
      else file_bodies s)"
  by (simp add: register_stream_def Let_def enqueue_to_dispatcher_def fsevents_call_def)

lemma handle_event_queue:
  assumes "\<not> needs_reregister e" and "fst (changed_file_path w e s) = Some p"
  shows "dispatcher_queue (handle_event w e s) =
           dispatcher_queue s @
           (if p \<in> set (files s) \<and> file_bodies s p \<noteq> Some (read_file w p) \<and> \<not> own_event e
            then [File_changed p (read_file w p)] else [])"
proof -
  obtain s1 where c: "changed_file_path w e s = (Some p, s1)"
    using assms(2) by (cases "changed_file_path w e s") auto
  have f: "files s1 = files s" "file_bodies s1 = file_bodies s"
    "dispatcher_queue s1 = dispatcher_queue s"
    using changed_file_path_frame [of w e s] c by simp_all
  show ?thesis
    using assms(1) f
    by (simp add: handle_event_def c update_file_bodies_eq enqueue_to_dispatcher_def)
qed

lemma handle_event_bodies:
  assumes "\<not> needs_reregister e" and "fst (changed_file_path w e s) = Some p"
  shows "file_bodies (handle_event w e s) =
           (if p \<in> set (files s) then (file_bodies s)(p \<mapsto> read_file w p) else file_bodies s)"
proof -
  obtain s1 where c: "changed_file_path w e s = (Some p, s1)"
    using assms(2) by (cases "changed_file_path w e s") auto
  have f: "files s1 = files s" "file_bodies s1 = file_bodies s"
    using changed_file_path_frame [of w e s] c by simp_all
  show ?thesis
    using assms(1) f
    by (auto simp add: handle_event_def c update_file_bodies_eq enqueue_to_dispatcher_def fun_eq_iff)
qed

lemma handle_event_ignored:
  assumes "\<not> needs_reregister e" and "fst (changed_file_path w e s) = None"
  shows "handle_event w e s = snd (changed_file_path w e s)"
  using assms by (cases "changed_file_path w e s") (simp add: handle_event_def)

lemma no_error_in_file_changes:
  "filter is_error_occurred (map (\<lambda>p. File_changed p (f p)) ps) = []"
  by (induction ps) simp_all

lemma unregister_stream_log:
  "fsevents_log (unregister_stream s) =
     fsevents_log s @ (case stream s of Some h \<Rightarrow> [Stop h, Invalidate h, Release h] | None \<Rightarrow> [])"
  by (simp add: unregister_stream_def fsevents_call_def split: option.splits)

lemma handle_event_files: "files (handle_event w e s) = files s"
proof (cases "needs_reregister e")
  case True
  then show ?thesis
    by (simp add: handle_event_def register_stream_frame unregister_stream_frame)
next
  case False
  obtain c s1 where c: "changed_file_path w e s = (c, s1)"
    by (cases "changed_file_path w e s")
  have "files s1 = files s"
    using changed_file_path_frame(1) [of w e s] c by simp
  then show ?thesis
    using False
    by (simp add: handle_event_def c update_file_bodies_eq enqueue_to_dispatcher_def
        split: option.splits)
qed

lemma find_first_match:
  "p \<in> set ps \<Longrightarrow> P p \<Longrightarrow> \<exists>q. find P ps = Some q \<and> q \<in> set ps \<and> P q"
  by (induction ps) auto

lemma signal_manually_errors:
  "filter is_error_occurred (dispatcher_queue (signal_manually w ps s)) =
     filter is_error_occurred (dispatcher_queue s)"
  by (simp add: signal_manually_queue no_error_in_file_changes)

lemma handle_event_log:
  "\<not> needs_reregister e \<Longrightarrow> fsevents_log (handle_event w e s) = fsevents_log s"
proof -
  assume n: "\<not> needs_reregister e"
  obtain c s1 where c: "changed_file_path w e s = (c, s1)"
    by (cases "changed_file_path w e s")
  have "fsevents_log s1 = fsevents_log s"
    using changed_file_path_frame(6) [of w e s] c by simp
  then show ?thesis
    using n
    by (simp add: handle_event_def c update_file_bodies_eq enqueue_to_dispatcher_def
        split: option.splits)
qed

lemma handle_event_errors:
  "\<not> needs_reregister e \<Longrightarrow>
     filter is_error_occurred (dispatcher_queue (handle_event w e s)) =
     filter is_error_occurred (dispatcher_queue s)"
proof -
  assume n: "\<not> needs_reregister e"
  obtain c s1 where c: "changed_file_path w e s = (c, s1)"
    by (cases "changed_file_path w e s")
  have "dispatcher_queue s1 = dispatcher_queue s"
    using changed_file_path_frame(5) [of w e s] c by simp
  then show ?thesis
    using n
    by (simp add: handle_event_def c update_file_bodies_eq enqueue_to_dispatcher_def
        split: option.splits)
qed

lemma register_stream_errors:
  "filter is_error_occurred (dispatcher_queue (register_stream w s)) =
     filter is_error_occurred (dispatcher_queue s) @
     (if stream s = None \<and> directories s \<noteq> None then
        (if \<not> FSEventStreamCreate w (length (fsevents_log s)) then
           [Error_occurred ''FSEventStreamCreate is failed.'']
         else if \<not> FSEventStreamStart w (length (fsevents_log s)) then
           [Error_occurred ''FSEventStreamStart is failed.'']
         else [])
      else [])"
  by (simp add: register_stream_queue signal_manually_errors)

lemma register_stream_balance:
  "length (filter is_error_occurred (dispatcher_queue (register_stream w s))) +
     length (filter failed_call (fsevents_log s)) =
   length (filter is_error_occurred (dispatcher_queue s)) +
     length (filter failed_call (fsevents_log (register_stream w s)))"
  by (simp add: register_stream_errors register_stream_log)

lemma handle_event_balance:
  "length (filter is_error_occurred (dispatcher_queue (handle_event w e s))) +
     length (filter failed_call (fsevents_log s)) =
   length (filter is_error_occurred (dispatcher_queue s)) +
     length (filter failed_call (fsevents_log (handle_event w e s)))"
proof (cases "needs_reregister e")
  case True
  have u: "length (filter failed_call (fsevents_log (unregister_stream s))) =
      length (filter failed_call (fsevents_log s))"
    by (simp add: unregister_stream_log split: option.splits)
  show ?thesis
    using True register_stream_balance [of w "unregister_stream s"] u
    by (simp add: handle_event_def unregister_stream_frame)
next
  case False
  then show ?thesis
    by (simp add: handle_event_errors handle_event_log)
qed

lemma stream_callback_balance:
  "length (filter is_error_occurred (dispatcher_queue (stream_callback w es s))) +
     length (filter failed_call (fsevents_log s)) =
   length (filter is_error_occurred (dispatcher_queue s)) +
     length (filter failed_call (fsevents_log (stream_callback w es s)))"
proof (induction es arbitrary: s)
  case Nil
  show ?case by simp
next
  case (Cons e es)
  show ?case
    using Cons.IH [of "handle_event w e s"] handle_event_balance [of w e s]
    by simp
qed

lemma register_stream_keys:
  "cache_keys_watched s \<Longrightarrow> cache_keys_watched (register_stream w s)"
  by (auto simp: cache_keys_watched_def register_stream_bodies register_stream_frame
      signal_manually_bodies dom_def split: if_splits)

lemma unregister_stream_keys:
  "cache_keys_watched s \<Longrightarrow> cache_keys_watched (unregister_stream s)"
  by (simp add: cache_keys_watched_def unregister_stream_frame)

lemma handle_event_keys:
  assumes "cache_keys_watched s"
  shows "cache_keys_watched (handle_event w e s)"
proof (cases "needs_reregister e")
  case True
  then show ?thesis
    using assms by (simp add: handle_event_def register_stream_keys unregister_stream_keys)
next
  case False
  show ?thesis
  proof (cases "fst (changed_file_path w e s)")
    case None
    then show ?thesis
      using assms False changed_file_path_frame(1,4) [of w e s]
      by (simp add: handle_event_ignored cache_keys_watched_def)
  next
    case (Some p)
    then show ?thesis
      using assms False
      by (auto simp: cache_keys_watched_def handle_event_bodies handle_event_files
          split: if_splits)
  qed
qed

lemma stream_callback_keys:
  "cache_keys_watched s \<Longrightarrow> cache_keys_watched (stream_callback w es s)"
  by (induction es arbitrary: s) (simp_all add: handle_event_keys)

lemma reachable_keys: "reachable s \<Longrightarrow> cache_keys_watched s"
proof (induction rule: reachable.induct)
  case (constructed dirname array_ok string_ok paths)
  show ?case by (simp add: cache_keys_watched_def file_monitor_new_def)
next
  case (started s w)
  then show ?case by (simp add: async_start_def register_stream_keys)
next
  case (delivered s w es)
  then show ?case by (simp add: stream_callback_keys)
next
  case (requested s path)
  then show ?case
    by (simp add: cache_keys_watched_def enqueue_file_changed_def enqueue_to_dispatcher_def
        split: option.splits)
next
  case (destroyed s)
  then show ?case by (simp add: unregister_stream_keys)
qed

lemma handle_event_resolved:
  assumes "\<not> needs_reregister e" and "changed_file_path w e s = (Some p, s1)"
  shows "handle_event w e s =
           (if p \<in> set (files s) \<and> file_bodies s p \<noteq> Some (read_file w p) then
              s1\<lparr>file_bodies := (file_bodies s)(p \<mapsto> read_file w p),
                 dispatcher_queue :=
                   dispatcher_queue s @
                   (if \<not> own_event e then [File_changed p (read_file w p)] else [])\<rparr>
            else s1)"
proof -
  have f: "files s1 = files s" "file_bodies s1 = file_bodies s"
    "dispatcher_queue s1 = dispatcher_queue s"
    using changed_file_path_frame [of w e s] assms(2) by simp_all
  show ?thesis
    using assms(1) f
    by (simp add: handle_event_def assms(2) update_file_bodies_eq enqueue_to_dispatcher_def)
qed

section \<open>When a change is reported\<close>

text \<open>
  Claim C1, as amended. For a watched path, a read is reported as a change exactly when
  the cache has no entry for the path yet (it was never read before) or the snapshot read
  differs from the cached entry; the snapshot returned is then the one read. So with an
  entry present, absent to absent reports nothing, and absent to bytes, bytes to absent
  and bytes to different bytes are changes, while the first read of a path is reported
  even when it reads absent. The manual signalling step enqueues exactly one
  \<open>file_changed\<close> with the path and the new snapshot for a reported change, and an
  event that resolves to the path does so unless it carries the own-event flag.
\<close>

theorem file_changed_iff_no_entry_or_differs:
  "p \<in> set (files s) \<Longrightarrow>
     (fst (fst (update_file_bodies w p s)) \<longleftrightarrow> file_bodies s p \<noteq> Some (read_file w p)) \<and>
     snd (fst (update_file_bodies w p s)) =
       (if file_bodies s p \<noteq> Some (read_file w p) then read_file w p else None) \<and>
     dispatcher_queue (signal_manually w [p] s) =
       dispatcher_queue s @
       (if file_bodies s p \<noteq> Some (read_file w p) then [File_changed p (read_file w p)] else []) \<and>
     (\<not> needs_reregister e \<and> fst (changed_file_path w e s) = Some p \<longrightarrow>
        dispatcher_queue (handle_event w e s) =
          dispatcher_queue s @
          (if file_bodies s p \<noteq> Some (read_file w p) \<and> \<not> own_event e
           then [File_changed p (read_file w p)] else []))"
  by (simp add: update_file_bodies_eq handle_event_queue enqueue_to_dispatcher_def)

text \<open>
  The theorem at a concrete input: the file \<open>a\<close> was read as the byte 1 at start and
  holds the byte 2 when an event for its real path arrives.
\<close>

theorem file_changed_iff_no_entry_or_differs_witness:
  "''a'' \<in> set (files (async_start (example_world [(''a'', [1])] [] True True)
                          (example_monitor [''a'']))) \<and>
   \<not> needs_reregister \<lparr>file_path = ''/r/a'', flags = 0x1000\<rparr> \<and>
   fst (changed_file_path
          (example_world [(''a'', [2])] [(''a'', ''/r/a''), (''/r/a'', ''/r/a'')] True True)
          \<lparr>file_path = ''/r/a'', flags = 0x1000\<rparr>
          (async_start (example_world [(''a'', [1])] [] True True) (example_monitor [''a''])))
     = Some ''a'' \<and>
   dispatcher_queue
     (handle_event
        (example_world [(''a'', [2])] [(''a'', ''/r/a''), (''/r/a'', ''/r/a'')] True True)
        \<lparr>file_path = ''/r/a'', flags = 0x1000\<rparr>
        (async_start (example_world [(''a'', [1])] [] True True) (example_monitor [''a''])))
     = [File_changed ''a'' (Some [1]), File_changed ''a'' (Some [2])]"
  using file_changed_iff_no_entry_or_differs
    [of "''a''" "async_start (example_world [(''a'', [1])] [] True True) (example_monitor [''a''])"
        "example_world [(''a'', [2])] [(''a'', ''/r/a''), (''/r/a'', ''/r/a'')] True True"
        "\<lparr>file_path = ''/r/a'', flags = 0x1000\<rparr>"]
  by (simp add: example_defs flag_defs step_defs)

text \<open>
  Claim C1 as written fails in two places. A watched file that was never read and cannot
  be opened is reported (absent to absent, yet \<open>updated\<close> is true); and an own-event for
  a file whose bytes differ from the cached ones enqueues nothing.
\<close>

theorem first_read_and_own_write_counterexample:
  "file_bodies (example_monitor [''a'']) ''a'' = None \<and>
   read_file (example_world [] [] True True) ''a'' = None \<and>
   fst (update_file_bodies (example_world [] [] True True) ''a'' (example_monitor [''a'']))
     = (True, None) \<and>
   dispatcher_queue (signal_manually (example_world [] [] True True) [''a''] (example_monitor [''a'']))
     = [File_changed ''a'' None] \<and>
   file_bodies (async_start (example_world [(''a'', [1])] [] True True) (example_monitor [''a'']))
      ''a'' = Some (Some [1]) \<and>
   read_file (example_world [(''a'', [2])] [(''a'', ''/r/a''), (''/r/a'', ''/r/a'')] True True)
      ''a'' = Some [2] \<and>
   dispatcher_queue
     (handle_event
        (example_world [(''a'', [2])] [(''a'', ''/r/a''), (''/r/a'', ''/r/a'')] True True)
        \<lparr>file_path = ''/r/a'', flags = 0x80000\<rparr>
        (async_start (example_world [(''a'', [1])] [] True True) (example_monitor [''a''])))
     = dispatcher_queue
         (async_start (example_world [(''a'', [1])] [] True True) (example_monitor [''a'']))"
  by (simp add: example_defs flag_defs step_defs)

section \<open>The manual signalling at start\<close>

text \<open>
  Claim C2, as amended. At the start of a freshly constructed monitor every watched file
  is read against an empty cache, and one \<open>file_changed\<close> is enqueued for every
  distinct watched path, in the order of first occurrence, carrying what was read: the
  bytes of the file, or absent when the file does not exist or cannot be read. The only
  other signal of the start is the error of a failed subscription.
\<close>

theorem initial_pass_reports_every_watched_file:
  "dispatcher_queue (async_start w (file_monitor_new dirname True string_ok paths)) =
     map (\<lambda>p. File_changed p (read_file w p)) (rev (remdups (rev paths))) @
     (if \<not> FSEventStreamCreate w 0 then [Error_occurred ''FSEventStreamCreate is failed.'']
      else if \<not> FSEventStreamStart w 0 then [Error_occurred ''FSEventStreamStart is failed.'']
      else [])"
proof -
  let ?s = "file_monitor_new dirname True string_ok paths"
  have "filter (\<lambda>p. p \<in> set (files ?s) \<and> file_bodies ?s p \<noteq> Some (read_file w p))
          (rev (remdups (rev paths))) = rev (remdups (rev paths))"
    by (simp add: file_monitor_new_def)
  then have "dispatcher_queue (signal_manually w (files ?s) ?s) =
      map (\<lambda>p. File_changed p (read_file w p)) (rev (remdups (rev paths)))"
    unfolding signal_manually_queue by (simp add: file_monitor_new_def)
  then show ?thesis
    by (simp add: async_start_def register_stream_queue) (simp add: file_monitor_new_def)
qed

text \<open>
  Claim C2 as written fails: the file \<open>a\<close> does not exist at start and is reported
  with an absent body.
\<close>

theorem missing_file_at_start_counterexample:
  "open_file (example_world [(''b'', [7])] [] True True) ''a'' = None \<and>
   dispatcher_queue
     (async_start (example_world [(''b'', [7])] [] True True) (example_monitor [''a'', ''b'']))
     = [File_changed ''a'' None, File_changed ''b'' (Some [7])]"
  by (simp add: example_defs step_defs)

section \<open>Re-registering the stream\<close>

text \<open>
  Claim C3, as amended. An event that carries the root-changed, kernel-dropped or
  user-dropped flag is handled by \<open>unregister_stream\<close> followed by \<open>register_stream\<close>:
  the stream is stopped, invalidated and released, and since \<open>stream\<close> is then null,
  \<open>register_stream\<close> runs its manual signalling again before it creates the new
  stream. So the re-registration itself re-reads every watched file and enqueues one
  \<open>file_changed\<close> for each distinct watched path whose content differs from its cache
  entry, followed by the error of a failed creation or start.
\<close>

theorem resubscribe_reruns_manual_signalling:
  "needs_reregister e \<Longrightarrow>
     handle_event w e s = register_stream w (unregister_stream s) \<and>
     stream (unregister_stream s) = None \<and>
     fsevents_log (unregister_stream s) =
       fsevents_log s @
       (case stream s of Some h \<Rightarrow> [Stop h, Invalidate h, Release h] | None \<Rightarrow> []) \<and>
     (directories s \<noteq> None \<longrightarrow>
        dispatcher_queue (handle_event w e s) =
          dispatcher_queue s @
          map (\<lambda>p. File_changed p (read_file w p))
            (filter (\<lambda>p. file_bodies s p \<noteq> Some (read_file w p)) (rev (remdups (rev (files s))))) @
          (if \<not> FSEventStreamCreate w (length (fsevents_log (unregister_stream s))) then
             [Error_occurred ''FSEventStreamCreate is failed.'']
           else if \<not> FSEventStreamStart w (length (fsevents_log (unregister_stream s))) then
             [Error_occurred ''FSEventStreamStart is failed.'']
           else []))"
proof -
  assume r: "needs_reregister e"
  let ?u = "unregister_stream s"
  have q: "dispatcher_queue (signal_manually w (files ?u) ?u) =
      dispatcher_queue s @
      map (\<lambda>p. File_changed p (read_file w p))
        (filter (\<lambda>p. file_bodies s p \<noteq> Some (read_file w p)) (rev (remdups (rev (files s)))))"
    unfolding signal_manually_queue unregister_stream_frame
    by (auto intro!: filter_cong arg_cong[where f = "map _"])
  show ?thesis
    using r q
    by (simp add: handle_event_def register_stream_queue unregister_stream_frame
        unregister_stream_log)
qed

text \<open>
  The theorem at a concrete input: the kernel dropped events, the file \<open>b\<close> has
  appeared (empty) since the start, and the new stream cannot be created.
\<close>

theorem resubscribe_reruns_manual_signalling_witness:
  "needs_reregister \<lparr>file_path = ''/r'', flags = 0x4\<rparr> \<and>
   directories (async_start (example_world [(''a'', [1])] [] True True) (example_monitor [''a'', ''b'']))
     \<noteq> None \<and>
   dispatcher_queue
     (handle_event (example_world [(''a'', [1]), (''b'', [])] [] False True)
        \<lparr>file_path = ''/r'', flags = 0x4\<rparr>
        (async_start (example_world [(''a'', [1])] [] True True) (example_monitor [''a'', ''b''])))
     = [File_changed ''a'' (Some [1]), File_changed ''b'' None, File_changed ''b'' (Some []),
        Error_occurred ''FSEventStreamCreate is failed.'']"
  using resubscribe_reruns_manual_signalling
    [of "\<lparr>file_path = ''/r'', flags = 0x4\<rparr>"
        "example_world [(''a'', [1]), (''b'', [])] [] False True"
        "async_start (example_world [(''a'', [1])] [] True True) (example_monitor [''a'', ''b''])"]
  by (simp add: example_defs flag_defs step_defs)

text \<open>
  Claim C3 as written fails: the file \<open>a\<close> changed from the byte 1 to the byte 2, no
  event for it was delivered, and the root-changed event alone enqueues its
  \<open>file_changed\<close>.
\<close>

theorem resubscribe_runs_reconciliation_counterexample:
  "needs_reregister \<lparr>file_path = ''/r'', flags = 0x20\<rparr> \<and>
   dispatcher_queue (async_start (example_world [(''a'', [1])] [] True True) (example_monitor [''a'']))
     = [File_changed ''a'' (Some [1])] \<and>
   dispatcher_queue
     (handle_event (example_world [(''a'', [2])] [] True True)
        \<lparr>file_path = ''/r'', flags = 0x20\<rparr>
        (async_start (example_world [(''a'', [1])] [] True True) (example_monitor [''a''])))
     = [File_changed ''a'' (Some [1]), File_changed ''a'' (Some [2])]"
  by (simp add: example_defs flag_defs step_defs)

section \<open>A stream that cannot be started\<close>

text \<open>
  Claim C4 at the input where it breaks. When \<open>FSEventStreamCreate\<close> returns a stream and
  \<open>FSEventStreamStart\<close> returns false, \<open>register_stream\<close> enqueues the error and
  returns with \<open>stream\<close> still holding the stream that never started: it is neither
  invalidated nor released, and a later \<open>async_start\<close> skips ("already started").
\<close>

theorem start_failure_keeps_stream:
  "stream (async_start (example_world [] [] True False) (example_monitor [''a''])) = Some 0 \<and>
   fsevents_log (async_start (example_world [] [] True False) (example_monitor [''a'']))
     = [Create (Some 0), SetDispatchQueue 0, Start 0 False] \<and>
   dispatcher_queue (async_start (example_world [] [] True False) (example_monitor [''a'']))
     = [File_changed ''a'' None, Error_occurred ''FSEventStreamStart is failed.''] \<and>
   async_start (example_world [] [] True True)
     (async_start (example_world [] [] True False) (example_monitor [''a'']))
     = async_start (example_world [] [] True False) (example_monitor [''a''])"
  by (simp add: example_defs step_defs)

section \<open>Own events\<close>

text \<open>
  Claim C5. For an event that does not re-register, carries the own-event flag and
  resolves to a watched path whose content read differs from the cache: nothing is
  enqueued, the cache entry of the path becomes the content read, and a later event for
  the path without the flag is diffed against that entry (it enqueues the new content
  exactly when it differs from what the own event stored).
\<close>

theorem own_event_updates_cache_silently:
  "\<not> needs_reregister e \<Longrightarrow> own_event e \<Longrightarrow> fst (changed_file_path w e s) = Some p \<Longrightarrow>
   p \<in> set (files s) \<Longrightarrow> file_bodies s p \<noteq> Some (read_file w p) \<Longrightarrow>
     dispatcher_queue (handle_event w e s) = dispatcher_queue s \<and>
     file_bodies (handle_event w e s) = (file_bodies s)(p \<mapsto> read_file w p) \<and>
     (\<not> needs_reregister e' \<and> \<not> own_event e' \<and>
      fst (changed_file_path w' e' (handle_event w e s)) = Some p \<longrightarrow>
        dispatcher_queue (handle_event w' e' (handle_event w e s)) =
          dispatcher_queue s @
          (if read_file w' p \<noteq> read_file w p then [File_changed p (read_file w' p)] else []))"
  by (auto simp add: handle_event_queue handle_event_bodies handle_event_files)

text \<open>
  The theorem at a concrete input: the file goes from byte 1 to byte 2 by an own write,
  then to byte 3 by another process.
\<close>

theorem own_event_updates_cache_silently_witness:
  "\<not> needs_reregister \<lparr>file_path = ''/r/a'', flags = 0x80000\<rparr> \<and>
   own_event \<lparr>file_path = ''/r/a'', flags = 0x80000\<rparr> \<and>
   \<not> needs_reregister \<lparr>file_path = ''/r/a'', flags = 0x1000\<rparr> \<and>
   \<not> own_event \<lparr>file_path = ''/r/a'', flags = 0x1000\<rparr> \<and>
   file_bodies (async_start (example_world [(''a'', [1])] [] True True) (example_monitor [''a'']))
     ''a'' = Some (Some [1]) \<and>
   dispatcher_queue
     (handle_event
        (example_world [(''a'', [2])] [(''a'', ''/r/a''), (''/r/a'', ''/r/a'')] True True)
        \<lparr>file_path = ''/r/a'', flags = 0x80000\<rparr>
        (async_start (example_world [(''a'', [1])] [] True True) (example_monitor [''a''])))
     = [File_changed ''a'' (Some [1])] \<and>
   file_bodies
     (handle_event
        (example_world [(''a'', [2])] [(''a'', ''/r/a''), (''/r/a'', ''/r/a'')] True True)
        \<lparr>file_path = ''/r/a'', flags = 0x80000\<rparr>
        (async_start (example_world [(''a'', [1])] [] True True) (example_monitor [''a''])))
     ''a'' = Some (Some [2]) \<and>
   dispatcher_queue
     (handle_event
        (example_world [(''a'', [3])] [(''a'', ''/r/a''), (''/r/a'', ''/r/a'')] True True)
        \<lparr>file_path = ''/r/a'', flags = 0x1000\<rparr>
        (handle_event
           (example_world [(''a'', [2])] [(''a'', ''/r/a''), (''/r/a'', ''/r/a'')] True True)
           \<lparr>file_path = ''/r/a'', flags = 0x80000\<rparr>
           (async_start (example_world [(''a'', [1])] [] True True) (example_monitor [''a'']))))
     = [File_changed ''a'' (Some [1]), File_changed ''a'' (Some [3])]"
  using own_event_updates_cache_silently
    [of "\<lparr>file_path = ''/r/a'', flags = 0x80000\<rparr>"
        "example_world [(''a'', [2])] [(''a'', ''/r/a''), (''/r/a'', ''/r/a'')] True True"
        "async_start (example_world [(''a'', [1])] [] True True) (example_monitor [''a''])"
        "''a''"
        "\<lparr>file_path = ''/r/a'', flags = 0x1000\<rparr>"
        "example_world [(''a'', [3])] [(''a'', ''/r/a''), (''/r/a'', ''/r/a'')] True True"]
  by (simp add: example_defs flag_defs step_defs)

section \<open>Starting twice\<close>

text \<open>
  Claim C6. When \<open>stream\<close> is set, \<open>async_start\<close> changes nothing. So a second start
  after a start that obtained a stream is a no-op, whatever the files hold by then: for a
  freshly constructed monitor the API log of both starts holds exactly one creation, and
  the queue holds the signals of one manual signalling.
\<close>

theorem start_is_idempotent:
  "(stream s \<noteq> None \<longrightarrow> async_start w s = s) \<and>
   (stream (async_start w s) \<noteq> None \<longrightarrow> async_start w' (async_start w s) = async_start w s) \<and>
   (stream (async_start w (file_monitor_new dirname array_ok string_ok paths)) \<noteq> None \<longrightarrow>
      fsevents_log
        (async_start w' (async_start w (file_monitor_new dirname array_ok string_ok paths)))
        = [Create (Some 0), SetDispatchQueue 0, Start 0 (FSEventStreamStart w 0)] \<and>
      dispatcher_queue
        (async_start w' (async_start w (file_monitor_new dirname array_ok string_ok paths)))
        = map (\<lambda>p. File_changed p (read_file w p)) (rev (remdups (rev paths))) @
          (if \<not> FSEventStreamStart w 0 then [Error_occurred ''FSEventStreamStart is failed.'']
           else []))"
proof -
  let ?n = "file_monitor_new dirname array_ok string_ok paths"
  have a: "stream t \<noteq> None \<Longrightarrow> async_start v t = t" for v t
    by (simp add: async_start_def register_stream_def)
  have n: "files ?n = paths" "stream ?n = None" "fsevents_log ?n = []" "dispatcher_queue ?n = []"
    by (simp_all add: file_monitor_new_def)
  have q: "dispatcher_queue (signal_manually w (files ?n) ?n) =
      map (\<lambda>p. File_changed p (read_file w p)) (rev (remdups (rev paths)))"
    by (simp add: signal_manually_queue file_monitor_new_def)
  have c: "stream (async_start w ?n) \<noteq> None \<Longrightarrow>
      fsevents_log (async_start w ?n) =
        [Create (Some 0), SetDispatchQueue 0, Start 0 (FSEventStreamStart w 0)] \<and>
      dispatcher_queue (async_start w ?n) =
        map (\<lambda>p. File_changed p (read_file w p)) (rev (remdups (rev paths))) @
        (if \<not> FSEventStreamStart w 0 then [Error_occurred ''FSEventStreamStart is failed.'']
         else [])"
    unfolding async_start_def register_stream_stream register_stream_log register_stream_queue q
    by (simp add: n split: if_splits)
  show ?thesis
    using a [of s w] a [of "async_start w s" w'] a [of "async_start w ?n" w'] c
    by auto
qed

text \<open>The theorem at a concrete input: the file changes between the two starts.\<close>

theorem start_is_idempotent_witness:
  "stream (async_start (example_world [(''a'', [1])] [] True True) (example_monitor [''a''])) \<noteq> None \<and>
   async_start (example_world [(''a'', [2])] [] True True)
     (async_start (example_world [(''a'', [1])] [] True True) (example_monitor [''a'']))
     = async_start (example_world [(''a'', [1])] [] True True) (example_monitor [''a'']) \<and>
   fsevents_log
     (async_start (example_world [(''a'', [2])] [] True True)
        (async_start (example_world [(''a'', [1])] [] True True) (example_monitor [''a''])))
     = [Create (Some 0), SetDispatchQueue 0, Start 0 True] \<and>
   dispatcher_queue
     (async_start (example_world [(''a'', [2])] [] True True)
        (async_start (example_world [(''a'', [1])] [] True True) (example_monitor [''a''])))
     = [File_changed ''a'' (Some [1])]"
  using start_is_idempotent
    [of "async_start (example_world [(''a'', [1])] [] True True) (example_monitor [''a''])"
        "example_world [(''a'', [1])] [] True True"
        "example_world [(''a'', [2])] [] True True"
        "\<lambda>p. ''.''" True "\<lambda>d. True" "[''a'']"]
  by (simp add: example_defs step_defs)

section \<open>Resolving the path of an event\<close>

text \<open>
  Claim C7. For an event path whose \<open>realpath\<close> succeeds and equals the \<open>realpath\<close>
  of a watched file, the first such watched file becomes \<open>changed_file_path\<close>, and an
  event that does not re-register leaves the monitor with \<open>stream_file_paths\<close> mapping
  the event path to that file and with that file processed as the candidate: its cache
  entry is the content read and its change, if any, is enqueued. When \<open>realpath\<close> fails
  and \<open>stream_file_paths\<close> has an entry for the event path, the entry's file becomes
  \<open>changed_file_path\<close>, and such an event leaves the monitor with the entry erased and
  with the entry's file processed as the candidate. In the remaining cases there is no
  \<open>changed_file_path\<close>, and an event that does not re-register leaves the monitor as
  it was.
\<close>

theorem changed_file_path_resolution:
  "(realpath w (file_path e) = Some rp \<and> p \<in> set (files s) \<and> realpath w p = Some rp \<longrightarrow>
      (\<exists>q. find (\<lambda>q. Some rp = realpath w q) (files s) = Some q \<and>
           q \<in> set (files s) \<and> realpath w q = Some rp \<and>
           changed_file_path w e s =
             (Some q, s\<lparr>stream_file_paths := (stream_file_paths s)(file_path e \<mapsto> q)\<rparr>) \<and>
           (\<not> needs_reregister e \<longrightarrow>
              handle_event w e s =
                s\<lparr>stream_file_paths := (stream_file_paths s)(file_path e \<mapsto> q),
                  file_bodies := (file_bodies s)(q \<mapsto> read_file w q),
                  dispatcher_queue :=
                    dispatcher_queue s @
                    (if file_bodies s q \<noteq> Some (read_file w q) \<and> \<not> own_event e
                     then [File_changed q (read_file w q)] else [])\<rparr>))) \<and>
   (realpath w (file_path e) = None \<and> stream_file_paths s (file_path e) = Some p \<longrightarrow>
      changed_file_path w e s =
        (Some p, s\<lparr>stream_file_paths := (stream_file_paths s)(file_path e := None)\<rparr>) \<and>
      (\<not> needs_reregister e \<longrightarrow>
         handle_event w e s =
           s\<lparr>stream_file_paths := (stream_file_paths s)(file_path e := None),
             file_bodies :=
               (if p \<in> set (files s) then (file_bodies s)(p \<mapsto> read_file w p)
                else file_bodies s),
             dispatcher_queue :=
               dispatcher_queue s @
               (if p \<in> set (files s) \<and> file_bodies s p \<noteq> Some (read_file w p) \<and> \<not> own_event e
                then [File_changed p (read_file w p)] else [])\<rparr>)) \<and>
   ((realpath w (file_path e) = Some rp \<and> (\<forall>q \<in> set (files s). realpath w q \<noteq> Some rp)) \<or>
    (realpath w (file_path e) = None \<and> stream_file_paths s (file_path e) = None) \<longrightarrow>
      changed_file_path w e s = (None, s) \<and>
      (\<not> needs_reregister e \<longrightarrow> handle_event w e s = s))"
proof (intro conjI impI)
  assume a: "realpath w (file_path e) = Some rp \<and> p \<in> set (files s) \<and> realpath w p = Some rp"
  then obtain q where q: "find (\<lambda>q. Some rp = realpath w q) (files s) = Some q"
    "q \<in> set (files s)" "realpath w q = Some rp"
    using find_first_match [of p "files s" "\<lambda>q. Some rp = realpath w q"] by auto
  have c: "changed_file_path w e s =
      (Some q, s\<lparr>stream_file_paths := (stream_file_paths s)(file_path e \<mapsto> q)\<rparr>)"
    unfolding changed_file_path_def using a q(1) by simp
  have h: "handle_event w e s =
                s\<lparr>stream_file_paths := (stream_file_paths s)(file_path e \<mapsto> q),
                  file_bodies := (file_bodies s)(q \<mapsto> read_file w q),
                  dispatcher_queue :=
                    dispatcher_queue s @
                    (if file_bodies s q \<noteq> Some (read_file w q) \<and> \<not> own_event e
                     then [File_changed q (read_file w q)] else [])\<rparr>"
    if "\<not> needs_reregister e"
    using q(2) by (simp add: handle_event_resolved [OF that c] fun_upd_idem)
  from q c h show "\<exists>q. find (\<lambda>q. Some rp = realpath w q) (files s) = Some q \<and>
           q \<in> set (files s) \<and> realpath w q = Some rp \<and>
           changed_file_path w e s =
             (Some q, s\<lparr>stream_file_paths := (stream_file_paths s)(file_path e \<mapsto> q)\<rparr>) \<and>
           (\<not> needs_reregister e \<longrightarrow>
              handle_event w e s =
                s\<lparr>stream_file_paths := (stream_file_paths s)(file_path e \<mapsto> q),
                  file_bodies := (file_bodies s)(q \<mapsto> read_file w q),
                  dispatcher_queue :=
                    dispatcher_queue s @
                    (if file_bodies s q \<noteq> Some (read_file w q) \<and> \<not> own_event e
                     then [File_changed q (read_file w q)] else [])\<rparr>)"
    by blast
next
  assume a: "realpath w (file_path e) = None \<and> stream_file_paths s (file_path e) = Some p"
  then show c: "changed_file_path w e s =
        (Some p, s\<lparr>stream_file_paths := (stream_file_paths s)(file_path e := None)\<rparr>)"
    by (simp add: changed_file_path_def)
  assume n: "\<not> needs_reregister e"
  show "handle_event w e s =
           s\<lparr>stream_file_paths := (stream_file_paths s)(file_path e := None),
             file_bodies :=
               (if p \<in> set (files s) then (file_bodies s)(p \<mapsto> read_file w p)
                else file_bodies s),
             dispatcher_queue :=
               dispatcher_queue s @
               (if p \<in> set (files s) \<and> file_bodies s p \<noteq> Some (read_file w p) \<and> \<not> own_event e
                then [File_changed p (read_file w p)] else [])\<rparr>"
    by (simp add: handle_event_resolved [OF n c] fun_upd_idem)
next
  assume n: "(realpath w (file_path e) = Some rp \<and> (\<forall>q \<in> set (files s). realpath w q \<noteq> Some rp)) \<or>
    (realpath w (file_path e) = None \<and> stream_file_paths s (file_path e) = None)"
  then have "realpath w (file_path e) = Some rp \<Longrightarrow>
      find (\<lambda>q. Some rp = realpath w q) (files s) = None"
    by (auto simp: find_None_iff)
  with n show c: "changed_file_path w e s = (None, s)"
    by (auto simp: changed_file_path_def)
  assume "\<not> needs_reregister e"
  with c show "handle_event w e s = s"
    by (simp add: handle_event_def)
qed

text \<open>
  The three cases at concrete inputs, on a started monitor: an event for the real path of
  \<open>a\<close> after its byte changed, an event for the same path after the file was removed,
  and an event for a path that belongs to no watched file.
\<close>

theorem changed_file_path_resolution_witness:
  "\<not> needs_reregister \<lparr>file_path = ''/r/a'', flags = 0x1000\<rparr> \<and>
   realpath (example_world [(''a'', [2])] [(''a'', ''/r/a''), (''/r/a'', ''/r/a'')] True True)
     ''/r/a'' = Some ''/r/a'' \<and>
   ''a'' \<in> set (files (async_start (example_world [(''a'', [1])] [] True True)
                          (example_monitor [''b'', ''a'']))) \<and>
   realpath (example_world [(''a'', [2])] [(''a'', ''/r/a''), (''/r/a'', ''/r/a'')] True True)
     ''a'' = Some ''/r/a'' \<and>
   fst (changed_file_path
          (example_world [(''a'', [2])] [(''a'', ''/r/a''), (''/r/a'', ''/r/a'')] True True)
          \<lparr>file_path = ''/r/a'', flags = 0x1000\<rparr>
          (async_start (example_world [(''a'', [1])] [] True True)
             (example_monitor [''b'', ''a'']))) = Some ''a'' \<and>
   stream_file_paths
     (handle_event
        (example_world [(''a'', [2])] [(''a'', ''/r/a''), (''/r/a'', ''/r/a'')] True True)
        \<lparr>file_path = ''/r/a'', flags = 0x1000\<rparr>
        (async_start (example_world [(''a'', [1])] [] True True) (example_monitor [''b'', ''a''])))
     ''/r/a'' = Some ''a'' \<and>
   file_bodies
     (handle_event
        (example_world [(''a'', [2])] [(''a'', ''/r/a''), (''/r/a'', ''/r/a'')] True True)
        \<lparr>file_path = ''/r/a'', flags = 0x1000\<rparr>
        (async_start (example_world [(''a'', [1])] [] True True) (example_monitor [''b'', ''a''])))
     ''a'' = Some (Some [2]) \<and>
   dispatcher_queue
     (handle_event
        (example_world [(''a'', [2])] [(''a'', ''/r/a''), (''/r/a'', ''/r/a'')] True True)
        \<lparr>file_path = ''/r/a'', flags = 0x1000\<rparr>
        (async_start (example_world [(''a'', [1])] [] True True) (example_monitor [''b'', ''a''])))
     = [File_changed ''b'' None, File_changed ''a'' (Some [1]), File_changed ''a'' (Some [2])] \<and>
   \<not> needs_reregister \<lparr>file_path = ''/r/a'', flags = 0x200\<rparr> \<and>
   realpath (example_world [] [] True True) ''/r/a'' = None \<and>
   stream_file_paths
     (handle_event
        (example_world [(''a'', [2])] [(''a'', ''/r/a''), (''/r/a'', ''/r/a'')] True True)
        \<lparr>file_path = ''/r/a'', flags = 0x1000\<rparr>
        (async_start (example_world [(''a'', [1])] [] True True) (example_monitor [''b'', ''a''])))
     ''/r/a'' = Some ''a'' \<and>
   stream_file_paths
     (handle_event (example_world [] [] True True) \<lparr>file_path = ''/r/a'', flags = 0x200\<rparr>
        (handle_event
           (example_world [(''a'', [2])] [(''a'', ''/r/a''), (''/r/a'', ''/r/a'')] True True)
           \<lparr>file_path = ''/r/a'', flags = 0x1000\<rparr>
           (async_start (example_world [(''a'', [1])] [] True True)
              (example_monitor [''b'', ''a'']))))
     ''/r/a'' = None \<and>
   dispatcher_queue
     (handle_event (example_world [] [] True True) \<lparr>file_path = ''/r/a'', flags = 0x200\<rparr>
        (handle_event
           (example_world [(''a'', [2])] [(''a'', ''/r/a''), (''/r/a'', ''/r/a'')] True True)
           \<lparr>file_path = ''/r/a'', flags = 0x1000\<rparr>
           (async_start (example_world [(''a'', [1])] [] True True)
              (example_monitor [''b'', ''a'']))))
     = [File_changed ''b'' None, File_changed ''a'' (Some [1]), File_changed ''a'' (Some [2]),
        File_changed ''a'' None] \<and>
   \<not> needs_reregister \<lparr>file_path = ''/r/c'', flags = 0x200\<rparr> \<and>
   realpath (example_world [] [] True True) ''/r/c'' = None \<and>
   stream_file_paths
     (async_start (example_world [(''a'', [1])] [] True True) (example_monitor [''b'', ''a'']))
     ''/r/c'' = None \<and>
   handle_event (example_world [] [] True True) \<lparr>file_path = ''/r/c'', flags = 0x200\<rparr>
     (async_start (example_world [(''a'', [1])] [] True True) (example_monitor [''b'', ''a'']))
     = async_start (example_world [(''a'', [1])] [] True True) (example_monitor [''b'', ''a''])"
  using changed_file_path_resolution
    [of "example_world [(''a'', [2])] [(''a'', ''/r/a''), (''/r/a'', ''/r/a'')] True True"
        "\<lparr>file_path = ''/r/a'', flags = 0x1000\<rparr>" "''/r/a''" "''a''"
        "async_start (example_world [(''a'', [1])] [] True True) (example_monitor [''b'', ''a''])"]
    changed_file_path_resolution
    [of "example_world [] [] True True"
        "\<lparr>file_path = ''/r/a'', flags = 0x200\<rparr>" "''/r/a''" "''a''"
        "handle_event
           (example_world [(''a'', [2])] [(''a'', ''/r/a''), (''/r/a'', ''/r/a'')] True True)
           \<lparr>file_path = ''/r/a'', flags = 0x1000\<rparr>
           (async_start (example_world [(''a'', [1])] [] True True)
              (example_monitor [''b'', ''a'']))"]
    changed_file_path_resolution
    [of "example_world [] [] True True"
        "\<lparr>file_path = ''/r/c'', flags = 0x200\<rparr>" "''/r/c''" "''a''"
        "async_start (example_world [(''a'', [1])] [] True True) (example_monitor [''b'', ''a''])"]
  by (simp add: example_defs flag_defs step_defs)

section \<open>Errors\<close>

text \<open>
  Claim C8. \<open>error_occurred\<close> is enqueued only by \<open>register_stream\<close>, and exactly
  when it reaches the creation of the stream and the creation or the start fails. An
  event that does not re-register (a file that is missing or unreadable, a path that
  matches no watched file) enqueues no error; an event that re-registers enqueues one
  exactly when the new creation or start fails. Over a whole batch of events, the errors
  enqueued are as many as the failed creations and starts logged.
\<close>

theorem error_occurred_only_on_subscription_failure:
  "filter is_error_occurred (dispatcher_queue (async_start w s)) =
     filter is_error_occurred (dispatcher_queue s) @
     (if stream s = None \<and> directories s \<noteq> None then
        (if \<not> FSEventStreamCreate w (length (fsevents_log s)) then
           [Error_occurred ''FSEventStreamCreate is failed.'']
         else if \<not> FSEventStreamStart w (length (fsevents_log s)) then
           [Error_occurred ''FSEventStreamStart is failed.'']
         else [])
      else []) \<and>
   (\<not> needs_reregister e \<longrightarrow>
      filter is_error_occurred (dispatcher_queue (handle_event w e s)) =
      filter is_error_occurred (dispatcher_queue s)) \<and>
   (needs_reregister e \<longrightarrow>
      filter is_error_occurred (dispatcher_queue (handle_event w e s)) =
      filter is_error_occurred (dispatcher_queue s) @
      (if directories s \<noteq> None then
         (if \<not> FSEventStreamCreate w (length (fsevents_log (unregister_stream s))) then
            [Error_occurred ''FSEventStreamCreate is failed.'']
          else if \<not> FSEventStreamStart w (length (fsevents_log (unregister_stream s))) then
            [Error_occurred ''FSEventStreamStart is failed.'']
          else [])
       else [])) \<and>
   length (filter is_error_occurred (dispatcher_queue (stream_callback w es s))) +
     length (filter failed_call (fsevents_log s)) =
   length (filter is_error_occurred (dispatcher_queue s)) +
     length (filter failed_call (fsevents_log (stream_callback w es s)))"
proof -
  have r: "needs_reregister e \<Longrightarrow> handle_event w e s = register_stream w (unregister_stream s)"
    by (simp add: handle_event_def)
  show ?thesis
    using stream_callback_balance [of w es s]
    by (auto simp add: async_start_def register_stream_errors handle_event_errors r
        unregister_stream_frame)
qed

text \<open>
  The theorem at concrete inputs: an event for an unknown path while every file is
  missing, and a user-dropped event whose new stream cannot be started.
\<close>

theorem error_occurred_only_on_subscription_failure_witness:
  "\<not> needs_reregister \<lparr>file_path = ''/r/c'', flags = 0x200\<rparr> \<and>
   filter is_error_occurred
     (dispatcher_queue
        (handle_event (example_world [] [] False False) \<lparr>file_path = ''/r/c'', flags = 0x200\<rparr>
           (async_start (example_world [(''a'', [1])] [] True True) (example_monitor [''a'', ''b''])))) = [] \<and>
   needs_reregister \<lparr>file_path = ''/r'', flags = 0x2\<rparr> \<and>
   filter is_error_occurred
     (dispatcher_queue
        (handle_event (example_world [] [] True False) \<lparr>file_path = ''/r'', flags = 0x2\<rparr>
           (async_start (example_world [(''a'', [1])] [] True True) (example_monitor [''a'', ''b'']))))
     = [Error_occurred ''FSEventStreamStart is failed.'']"
  using error_occurred_only_on_subscription_failure
    [of "example_world [] [] False False"
        "async_start (example_world [(''a'', [1])] [] True True) (example_monitor [''a'', ''b''])"
        "\<lparr>file_path = ''/r/c'', flags = 0x200\<rparr>" "[]"]
    error_occurred_only_on_subscription_failure
    [of "example_world [] [] True False"
        "async_start (example_world [(''a'', [1])] [] True True) (example_monitor [''a'', ''b''])"
        "\<lparr>file_path = ''/r'', flags = 0x2\<rparr>" "[]"]
  by (simp add: example_defs flag_defs step_defs)

section \<open>The keys of the cache\<close>

text \<open>
  Claim C9. For a path that is not in \<open>files\<close>, \<open>update_file_bodies\<close> returns
  \<open>(false, nullptr)\<close> and leaves the monitor, and so its cache, unchanged. Hence in every
  state reached from the constructor by starts, delivered batches, \<open>enqueue_file_changed\<close>
  and \<open>unregister_stream\<close>, the keys of \<open>file_bodies\<close> are watched files.
\<close>

theorem cache_keys_are_watched_files:
  "(p \<notin> set (files s) \<longrightarrow> update_file_bodies w p s = ((False, None), s)) \<and>
   (reachable s \<longrightarrow> dom (file_bodies s) \<subseteq> set (files s))"
  using reachable_keys [of s]
  by (simp add: update_file_bodies_eq cache_keys_watched_def)

text \<open>The theorem at a concrete input: a started monitor and the unwatched path \<open>c\<close>.\<close>

theorem cache_keys_are_watched_files_witness:
  "''c'' \<notin> set (files (async_start (example_world [(''a'', [1])] [] True True)
                            (example_monitor [''a'', ''b'']))) \<and>
   update_file_bodies (example_world [(''c'', [5])] [] True True) ''c''
     (async_start (example_world [(''a'', [1])] [] True True) (example_monitor [''a'', ''b'']))
     = ((False, None),
        async_start (example_world [(''a'', [1])] [] True True) (example_monitor [''a'', ''b''])) \<and>
   reachable (async_start (example_world [(''a'', [1])] [] True True)
                (example_monitor [''a'', ''b''])) \<and>
   dom (file_bodies (async_start (example_world [(''a'', [1])] [] True True)
                       (example_monitor [''a'', ''b''])))
     \<subseteq> set (files (async_start (example_world [(''a'', [1])] [] True True)
                       (example_monitor [''a'', ''b''])))"
proof -
  have r: "reachable (async_start (example_world [(''a'', [1])] [] True True)
                (example_monitor [''a'', ''b'']))"
    unfolding example_monitor_def by (intro reachable.started reachable.constructed)
  have c: "''c'' \<notin> set (files (async_start (example_world [(''a'', [1])] [] True True)
                            (example_monitor [''a'', ''b''])))"
    by (simp add: async_start_def register_stream_frame example_monitor_def file_monitor_new_def)
  show ?thesis
    using r c cache_keys_are_watched_files
      [of "''c''" "async_start (example_world [(''a'', [1])] [] True True)
                     (example_monitor [''a'', ''b''])"
          "example_world [(''c'', [5])] [] True True"]
    by simp
qed

section \<open>Empty files\<close>

text \<open>
  Claim C10. A file that can be opened and holds no byte is read as the empty byte
  sequence, not as \<open>nullptr\<close>. For a watched path whose cache is absent (no entry, or a
  null entry), reading the empty file is a change that stores and returns the empty
  sequence, and reading it again once it cannot be opened is a change back to \<open>nullptr\<close>;
  events without the own-event flag that resolve to the path enqueue both changes.
\<close>

theorem empty_file_is_not_absent:
  "p \<in> set (files s) \<Longrightarrow> file_bodies s p = None \<or> file_bodies s p = Some None \<Longrightarrow>
   open_file w p = Some [] \<Longrightarrow> open_file w' p = None \<Longrightarrow>
     read_file w p = Some [] \<and>
     update_file_bodies w p s =
       ((True, Some []), s\<lparr>file_bodies := (file_bodies s)(p \<mapsto> Some [])\<rparr>) \<and>
     update_file_bodies w' p (snd (update_file_bodies w p s)) =
       ((True, None), s\<lparr>file_bodies := (file_bodies s)(p \<mapsto> None)\<rparr>) \<and>
     (\<not> needs_reregister e \<and> \<not> own_event e \<and> fst (changed_file_path w e s) = Some p \<longrightarrow>
        dispatcher_queue (handle_event w e s) = dispatcher_queue s @ [File_changed p (Some [])] \<and>
        (\<not> needs_reregister e' \<and> \<not> own_event e' \<and>
         fst (changed_file_path w' e' (handle_event w e s)) = Some p \<longrightarrow>
           dispatcher_queue (handle_event w' e' (handle_event w e s)) =
             dispatcher_queue s @ [File_changed p (Some []), File_changed p None]))"
proof -
  assume p: "p \<in> set (files s)"
    and c: "file_bodies s p = None \<or> file_bodies s p = Some None"
    and o: "open_file w p = Some []" and o': "open_file w' p = None"
  have r: "read_file w p = Some []" "read_file w' p = None"
    using o o' by (simp_all add: read_file_open)
  have d: "file_bodies s p \<noteq> Some (read_file w p)"
    using c r by auto
  have u: "update_file_bodies w p s =
       ((True, Some []), s\<lparr>file_bodies := (file_bodies s)(p \<mapsto> Some [])\<rparr>)"
    using p d r by (simp add: update_file_bodies_eq)
  have u': "update_file_bodies w' p (snd (update_file_bodies w p s)) =
       ((True, None), s\<lparr>file_bodies := (file_bodies s)(p \<mapsto> None)\<rparr>)"
    using p r by (simp add: u update_file_bodies_eq)
  have q: "dispatcher_queue (handle_event w e s) = dispatcher_queue s @ [File_changed p (Some [])]"
    if "\<not> needs_reregister e \<and> \<not> own_event e \<and> fst (changed_file_path w e s) = Some p"
    using that p d r by (simp add: handle_event_queue)
  have q': "dispatcher_queue (handle_event w' e' (handle_event w e s)) =
             dispatcher_queue s @ [File_changed p (Some []), File_changed p None]"
    if a: "\<not> needs_reregister e \<and> \<not> own_event e \<and> fst (changed_file_path w e s) = Some p"
      and b: "\<not> needs_reregister e' \<and> \<not> own_event e' \<and>
         fst (changed_file_path w' e' (handle_event w e s)) = Some p"
    using a b p r q [OF a]
    by (simp add: handle_event_queue handle_event_bodies handle_event_files)
  show ?thesis
    using r u u' q q' by blast
qed

text \<open>
  The theorem at a concrete input: the file is missing at start, is created empty, and is
  removed again.
\<close>

theorem empty_file_is_not_absent_witness:
  "''a'' \<in> set (files (async_start (example_world [] [] True True) (example_monitor [''a'']))) \<and>
   file_bodies (async_start (example_world [] [] True True) (example_monitor [''a''])) ''a''
     = Some None \<and>
   open_file (example_world [(''a'', [])] [(''a'', ''/r/a''), (''/r/a'', ''/r/a'')] True True) ''a''
     = Some [] \<and>
   open_file (example_world [] [] True True) ''a'' = None \<and>
   \<not> needs_reregister \<lparr>file_path = ''/r/a'', flags = 0x100\<rparr> \<and>
   \<not> own_event \<lparr>file_path = ''/r/a'', flags = 0x100\<rparr> \<and>
   \<not> needs_reregister \<lparr>file_path = ''/r/a'', flags = 0x200\<rparr> \<and>
   \<not> own_event \<lparr>file_path = ''/r/a'', flags = 0x200\<rparr> \<and>
   dispatcher_queue
     (handle_event (example_world [] [] True True) \<lparr>file_path = ''/r/a'', flags = 0x200\<rparr>
        (handle_event
           (example_world [(''a'', [])] [(''a'', ''/r/a''), (''/r/a'', ''/r/a'')] True True)
           \<lparr>file_path = ''/r/a'', flags = 0x100\<rparr>
           (async_start (example_world [] [] True True) (example_monitor [''a'']))))
     = [File_changed ''a'' None, File_changed ''a'' (Some []), File_changed ''a'' None]"
  using empty_file_is_not_absent
    [of "''a''" "async_start (example_world [] [] True True) (example_monitor [''a''])"
        "example_world [(''a'', [])] [(''a'', ''/r/a''), (''/r/a'', ''/r/a'')] True True"
        "example_world [] [] True True"
        "\<lparr>file_path = ''/r/a'', flags = 0x100\<rparr>"
        "\<lparr>file_path = ''/r/a'', flags = 0x200\<rparr>"]
  by (simp add: example_defs flag_defs step_defs)

end
